theory Spec2Isabelle
  imports Main
begin

section \<open>Type expressions\<close>

text \<open>
  The type-trait functions of \<^verbatim>\<open>pygccxml/declarations/type_traits.py\<close> work on the
  type-expression classes of the module \<^verbatim>\<open>cpptypes\<close> and on the helpers of
  \<^verbatim>\<open>type_traits_utils\<close>. Neither module is among the sources; both are modelled from
  section 3 and section 4.1 of the specification. Everything after this section is
  translated from \<^verbatim>\<open>type_traits.py\<close>.
\<close>

text \<open>Modelled from the spec: the nineteen fundamental kinds of section 3, named after
  the classes \<^verbatim>\<open>type_traits.py\<close> instantiates (\<^verbatim>\<open>cpptypes.int_t()\<close> and so on).\<close>

datatype fundamental_kind =
    void_t | bool_t | char_t | signed_char_t | unsigned_char_t | wchar_t
  | short_int_t | short_unsigned_int_t | int_t | unsigned_int_t
  | long_int_t | long_unsigned_int_t | long_long_int_t | long_long_unsigned_int_t
  | int128_t | uint128_t | float_t | double_t | long_double_t

type_synonym decl_id = nat

text \<open>Modelled from the spec: the closed set of type-node variants of section 3. A
  declaration is referred to by its identity (\<open>decl_id\<close>); the reference of a
  \<open>DeclaredRef\<close> is \<open>None\<close> only after \<^verbatim>\<open>__normalize\<close> failed to find the definition
  of a forward-declared class. The three callable-type variants carry the spelling of
  their signature. Equality of type expressions is structural.\<close>

datatype type_t =
    Fundamental fundamental_kind
  | Const type_t
  | Volatile type_t
  | Pointer type_t
  | Reference type_t
  | Array type_t nat
  | FreeFunctionType string
  | MemberFunctionType string
  | MemberVariableType string
  | DeclaredRef "decl_id option"
  | Alias string type_t

datatype error = AttributeError | AssertionError | RuntimeError | TypeError | IndexError

text \<open>Modelled from the spec: \<^verbatim>\<open>type_traits_utils.remove_alias\<close>, the single
  alias-resolution step of section 4.1: it unwraps exactly one \<open>Alias\<close> layer and
  returns any other expression unchanged.\<close>

fun remove_alias :: "type_t \<Rightarrow> type_t" where
  "remove_alias (Alias n b) = b"
| "remove_alias t = t"

text \<open>Modelled from the spec: the attribute \<^verbatim>\<open>base\<close>. Section 3 gives each of
  \<open>Const\<close>, \<open>Volatile\<close>, \<open>Pointer\<close>, \<open>Reference\<close>, \<open>Array\<close> and \<open>Alias\<close> one \<open>base\<close>
  sub-expression; reading it from any other node raises \<^verbatim>\<open>AttributeError\<close>.\<close>

fun base :: "type_t \<Rightarrow> error + type_t" where
  "base (Const b) = Inr b"
| "base (Volatile b) = Inr b"
| "base (Pointer b) = Inr b"
| "base (Reference b) = Inr b"
| "base (Array b n) = Inr b"
| "base (Alias n b) = Inr b"
| "base t = Inl AttributeError"

text \<open>Modelled from the spec: \<^verbatim>\<open>isinstance(t, cpptypes.compound_t)\<close>. The comment in
  \<^verbatim>\<open>is_copy_constructor\<close> separates the wrappers from a typedef, which is not one.\<close>

fun is_compound :: "type_t \<Rightarrow> bool" where
  "is_compound (Const b) = True"
| "is_compound (Volatile b) = True"
| "is_compound (Pointer b) = True"
| "is_compound (Reference b) = True"
| "is_compound (Array b n) = True"
| "is_compound t = False"

text \<open>Modelled from the spec: \<^verbatim>\<open>isinstance(t, cpptypes.calldef_type_t)\<close>, the
  callable-type variants of section 3 (section 4.3, \<^verbatim>\<open>is_calldef_pointer\<close>).\<close>

fun is_calldef_type :: "type_t \<Rightarrow> bool" where
  "is_calldef_type (FreeFunctionType s) = True"
| "is_calldef_type (MemberFunctionType s) = True"
| "is_calldef_type (MemberVariableType s) = True"
| "is_calldef_type t = False"

text \<open>Modelled from the spec: \<^verbatim>\<open>type_traits_utils.decompose_type\<close>, the chain of nodes
  from the outermost wrapper down to the innermost base; an alias is transparent
  (section 3) and does not appear in the chain.\<close>

fun decompose_type :: "type_t \<Rightarrow> type_t list" where
  "decompose_type (Const b) = Const b # decompose_type b"
| "decompose_type (Volatile b) = Volatile b # decompose_type b"
| "decompose_type (Pointer b) = Pointer b # decompose_type b"
| "decompose_type (Reference b) = Reference b # decompose_type b"
| "decompose_type (Array b n) = Array b n # decompose_type b"
| "decompose_type (Alias n b) = decompose_type b"
| "decompose_type t = [t]"

text \<open>Modelled from the spec: \<^verbatim>\<open>type_traits_utils.base_type\<close>, the last node of the
  chain (for \<^verbatim>\<open>const int\<close> it is \<^verbatim>\<open>int\<close>).\<close>

definition base_type :: "type_t \<Rightarrow> type_t" where
  "base_type t = last (decompose_type t)"

text \<open>The Python classes that \<^verbatim>\<open>does_match_definition\<close> compares: the class of a node,
  and the abstract class \<^verbatim>\<open>fundamental_t\<close> that every fundamental kind derives from.\<close>

datatype py_class =
    fundamental_cls | kind_cls fundamental_kind
  | const_cls | volatile_cls | pointer_cls | reference_cls | array_cls
  | free_function_type_cls | member_function_type_cls | member_variable_type_cls
  | declarated_cls | alias_cls

fun class_of :: "type_t \<Rightarrow> py_class" where
  "class_of (Fundamental k) = kind_cls k"
| "class_of (Const b) = const_cls"
| "class_of (Volatile b) = volatile_cls"
| "class_of (Pointer b) = pointer_cls"
| "class_of (Reference b) = reference_cls"
| "class_of (Array b n) = array_cls"
| "class_of (FreeFunctionType s) = free_function_type_cls"
| "class_of (MemberFunctionType s) = member_function_type_cls"
| "class_of (MemberVariableType s) = member_variable_type_cls"
| "class_of (DeclaredRef d) = declarated_cls"
| "class_of (Alias n b) = alias_cls"

fun issubclass :: "py_class \<Rightarrow> py_class \<Rightarrow> bool" where
  "issubclass (kind_cls k) fundamental_cls = True"
| "issubclass a b = (a = b)"

definition isinstance :: "type_t \<Rightarrow> py_class \<Rightarrow> bool" where
  "isinstance t c = issubclass (class_of t) c"

section \<open>Classification and qualifier normalisation\<close>

definition create_cv_types :: "type_t \<Rightarrow> type_t list" where
  "create_cv_types b = [b, Const b, Volatile b, Volatile (Const b)]"

text \<open>\<^verbatim>\<open>does_match_definition(given, main, secondary)\<close>; \<open>secondary\<close> is the pair the
  source asserts it to be. The last branch compares the set of the classes of the first
  three nodes with the set of the three desired classes.\<close>

definition does_match_definition :: "type_t \<Rightarrow> py_class \<Rightarrow> py_class \<times> py_class \<Rightarrow> bool" where
  "does_match_definition given main secondary =
     (let types = decompose_type given;
          sec = (\<lambda>t. isinstance t (fst secondary) \<or> isinstance t (snd secondary))
      in if isinstance (types ! 0) main then True
         else if 2 \<le> length types \<and>
                 ((isinstance (types ! 0) main \<and> sec (types ! 1)) \<or>
                  (isinstance (types ! 1) main \<and> sec (types ! 0))) then True
         else if 3 \<le> length types then
           (let classes = set (map class_of (take 3 types));
                desired = {main, fst secondary, snd secondary};
                diff = (classes - desired) \<union> (desired - classes)
            in if diff = {} then True
               else if card diff = 2 then
                 (\<exists>a \<in> diff. \<exists>b \<in> diff. a \<noteq> b \<and> issubclass a b)
               else False)
         else False)"

definition is_bool :: "type_t \<Rightarrow> bool" where
  "is_bool t = (remove_alias t \<in> set (create_cv_types (Fundamental bool_t)))"

definition is_void :: "type_t \<Rightarrow> bool" where
  "is_void t = (remove_alias t \<in> set (create_cv_types (Fundamental void_t)))"

definition integral_def :: "type_t list" where
  "integral_def =
     create_cv_types (Fundamental char_t) @
     create_cv_types (Fundamental unsigned_char_t) @
     create_cv_types (Fundamental signed_char_t) @
     create_cv_types (Fundamental wchar_t) @
     create_cv_types (Fundamental short_int_t) @
     create_cv_types (Fundamental short_unsigned_int_t) @
     create_cv_types (Fundamental bool_t) @
     create_cv_types (Fundamental int_t) @
     create_cv_types (Fundamental unsigned_int_t) @
     create_cv_types (Fundamental long_int_t) @
     create_cv_types (Fundamental long_unsigned_int_t) @
     create_cv_types (Fundamental long_long_int_t) @
     create_cv_types (Fundamental long_long_unsigned_int_t) @
     create_cv_types (Fundamental int128_t) @
     create_cv_types (Fundamental uint128_t)"

definition is_integral :: "type_t \<Rightarrow> bool" where
  "is_integral t = (remove_alias t \<in> set integral_def)"

definition float_def :: "type_t list" where
  "float_def =
     create_cv_types (Fundamental float_t) @
     create_cv_types (Fundamental double_t) @
     create_cv_types (Fundamental long_double_t)"

definition is_floating_point :: "type_t \<Rightarrow> bool" where
  "is_floating_point t = (remove_alias t \<in> set float_def)"

definition is_arithmetic :: "type_t \<Rightarrow> bool" where
  "is_arithmetic t = (is_integral t \<or> is_floating_point t)"

definition is_pointer :: "type_t \<Rightarrow> bool" where
  "is_pointer t =
     (does_match_definition t pointer_cls (const_cls, volatile_cls) \<or>
      does_match_definition t pointer_cls (volatile_cls, const_cls))"

definition is_fundamental :: "type_t \<Rightarrow> bool" where
  "is_fundamental t =
     (does_match_definition t fundamental_cls (const_cls, volatile_cls) \<or>
      does_match_definition t fundamental_cls (volatile_cls, const_cls))"

definition is_reference :: "type_t \<Rightarrow> bool" where
  "is_reference t = (case remove_alias t of Reference b \<Rightarrow> True | _ \<Rightarrow> False)"

text \<open>\<^verbatim>\<open>is_const\<close> and \<^verbatim>\<open>is_volatile\<close> resolve one alias layer at every level of their
  recursion through the other qualifier and through arrays.\<close>

function is_const :: "type_t \<Rightarrow> bool" where
  "is_const t =
     (case remove_alias t of
        Const b \<Rightarrow> True
      | Volatile b \<Rightarrow> is_const b
      | Array b n \<Rightarrow> is_const b
      | _ \<Rightarrow> False)"
  by pat_completeness auto
termination
  by (relation "measure size") (auto elim: remove_alias.elims)

function is_volatile :: "type_t \<Rightarrow> bool" where
  "is_volatile t =
     (case remove_alias t of
        Volatile b \<Rightarrow> True
      | Const b \<Rightarrow> is_volatile b
      | Array b n \<Rightarrow> is_volatile b
      | _ \<Rightarrow> False)"
  by pat_completeness auto
termination
  by (relation "measure size") (auto elim: remove_alias.elims)

declare is_const.simps [simp del]
declare is_volatile.simps [simp del]

text \<open>Sequencing of computations that may raise: the first error ends the computation.\<close>

definition bnd :: "error + 'a \<Rightarrow> ('a \<Rightarrow> error + 'b) \<Rightarrow> error + 'b" where
  "bnd m f = (case m of Inl e \<Rightarrow> Inl e | Inr x \<Rightarrow> f x)"

text \<open>\<^verbatim>\<open>remove_pointer\<close>: the chain of \<^verbatim>\<open>isinstance\<close> tests on the alias-resolved
  type, in the order of the source.\<close>

fun remove_pointer_nake :: "type_t \<Rightarrow> type_t \<Rightarrow> error + type_t" where
  "remove_pointer_nake t (Volatile (Pointer b)) = Inr (Volatile b)"
| "remove_pointer_nake t (Const (Pointer b)) = Inr (Const b)"
| "remove_pointer_nake t (Volatile (Const (Pointer b))) = Inr (Volatile (Const b))"
| "remove_pointer_nake t nake =
     bnd (base nake) (\<lambda>nb. if is_calldef_type nb then Inr t else Inr nb)"

definition remove_pointer :: "type_t \<Rightarrow> error + type_t" where
  "remove_pointer t =
     (let nake = remove_alias t
      in if \<not> is_pointer nake then Inr t else remove_pointer_nake t nake)"

definition remove_reference :: "type_t \<Rightarrow> error + type_t" where
  "remove_reference t =
     (let nake = remove_alias t
      in if \<not> is_reference nake then Inr t else base nake)"

definition remove_const :: "type_t \<Rightarrow> error + type_t" where
  "remove_const t =
     (let nake = remove_alias t
      in if \<not> is_const nake then Inr t
         else (case nake of
                 Array b n \<Rightarrow>
                   (if is_volatile nake
                    then bnd (base b) (\<lambda>b2. bnd (base b2) (\<lambda>b3. Inr (Array (Volatile b3) n)))
                    else bnd (base b) (\<lambda>b2. Inr (Array b2 n)))
               | Volatile b \<Rightarrow> bnd (base b) (\<lambda>b2. Inr (Volatile b2))
               | _ \<Rightarrow> base nake))"

definition remove_volatile :: "type_t \<Rightarrow> error + type_t" where
  "remove_volatile t =
     (let nake = remove_alias t
      in if \<not> is_volatile nake then Inr t
         else (case nake of
                 Array b n \<Rightarrow>
                   (if is_const nake
                    then bnd (base b) (\<lambda>b2. bnd (base b2) (\<lambda>b3. Inr (Array (Const b3) n)))
                    else bnd (base b) (\<lambda>b2. Inr (Array b2 n)))
               | _ \<Rightarrow> base nake))"

definition remove_cv :: "type_t \<Rightarrow> error + type_t" where
  "remove_cv t =
     (let nake = remove_alias t
      in if \<not> is_const nake \<and> \<not> is_volatile nake then Inr t
         else bnd (if is_const nake then remove_const nake else Inr nake) (\<lambda>r1.
              bnd (if is_volatile r1 then remove_volatile r1 else Inr r1) (\<lambda>r2.
              if is_const r2 then remove_const r2 else Inr r2)))"

definition is_calldef_pointer :: "type_t \<Rightarrow> error + bool" where
  "is_calldef_pointer t =
     (if \<not> is_pointer t then Inr False
      else bnd (remove_cv (remove_alias t)) (\<lambda>nake.
           if is_compound nake then bnd (base nake) (\<lambda>nb. Inr (is_calldef_type nb))
           else Inr False))"

definition is_array :: "type_t \<Rightarrow> error + bool" where
  "is_array t =
     bnd (remove_reference (remove_alias t)) (\<lambda>n1.
     bnd (remove_cv n1) (\<lambda>n2.
     Inr (case n2 of Array b n \<Rightarrow> True | _ \<Rightarrow> False)))"

definition array_size :: "type_t \<Rightarrow> error + nat" where
  "array_size t =
     bnd (remove_reference (remove_alias t)) (\<lambda>n1.
     bnd (remove_cv n1) (\<lambda>n2.
     case n2 of Array b n \<Rightarrow> Inr n | _ \<Rightarrow> Inl AssertionError))"

definition array_item_type :: "type_t \<Rightarrow> error + type_t" where
  "array_item_type t =
     bnd (is_array t) (\<lambda>a.
       if a then bnd (remove_cv (remove_alias t)) base
       else if is_pointer t then remove_pointer t
       else Inl RuntimeError)"

text \<open>The values the functions below pass around besides type expressions: a declaration
  (by identity) and \<^verbatim>\<open>None\<close>.\<close>

datatype py_obj = PyNone | PyDecl decl_id | PyType type_t

text \<open>\<^verbatim>\<open>remove_declarated\<close> returns the declaration a \<open>DeclaredRef\<close> names; a value that
  is not a type expression passes through \<^verbatim>\<open>remove_alias\<close> and the \<^verbatim>\<open>isinstance\<close> test
  unchanged.\<close>

fun remove_declarated :: "py_obj \<Rightarrow> py_obj" where
  "remove_declarated (PyType t) =
     (case remove_alias t of
        DeclaredRef d \<Rightarrow> (case d of None \<Rightarrow> PyNone | Some i \<Rightarrow> PyDecl i)
      | t' \<Rightarrow> PyType t')"
| "remove_declarated x = x"

definition is_same :: "type_t \<Rightarrow> type_t \<Rightarrow> bool" where
  "is_same type1 type2 = (remove_declarated (PyType type1) = remove_declarated (PyType type2))"

definition is_void_pointer :: "type_t \<Rightarrow> bool" where
  "is_void_pointer t = is_same t (Pointer (Fundamental void_t))"

text \<open>An argument of a constructor; only its declared type matters here.\<close>

datatype argument_t = argument_t (decl_type: type_t)

text \<open>\<^verbatim>\<open>is_copy_constructor(args, parent)\<close>; \<open>parent\<close> is the class the constructor
  belongs to, compared by identity.\<close>

definition is_copy_constructor :: "argument_t list \<Rightarrow> decl_id \<Rightarrow> error + bool" where
  "is_copy_constructor args parent =
     (if length args \<noteq> 1 then Inr False
      else let arg = args ! 0
           in if \<not> is_compound (decl_type arg) then Inr False
              else if \<not> is_reference (decl_type arg) then Inr False
              else bnd (base (decl_type arg)) (\<lambda>ab.
                   if \<not> is_const ab then Inr False
                   else bnd (base (remove_alias ab)) (\<lambda>ub.
                        case ub of
                          DeclaredRef d \<Rightarrow> Inr (d = Some parent)
                        | _ \<Rightarrow> Inr False)))"

section \<open>Declarations\<close>

text \<open>Modelled from the spec: the entities of the declaration store that the engine
  reads (section 3). The module \<^verbatim>\<open>class_declaration\<close> is not among the sources. A class
  exposes its transitively computed base list, its constructors and its casting
  operators; a forward declaration (\<^verbatim>\<open>class_declaration_t\<close>) carries what the lookup of
  its definition in the enclosing scope returns.\<close>

datatype access_types = PUBLIC | PROTECTED | PRIVATE

record hierarchy_info_t =
  related_class :: decl_id
  access_type :: access_types

record constructor_t =
  arguments :: "argument_t list"
  ctor_access_type :: access_types
  is_artificial :: bool

record casting_operator_t =
  return_type :: type_t

record class_t =
  recursive_bases :: "hierarchy_info_t list"
  constructors :: "constructor_t list"
  casting_operators :: "casting_operator_t list"

datatype declaration_t =
    Class class_t
  | ClassDeclaration "decl_id option"
  | Enumeration
  | OtherDeclaration

type_synonym store = "decl_id \<Rightarrow> declaration_t"

text \<open>\<^verbatim>\<open>declaration_xxx_traits\<close>: the sequence \<^verbatim>\<open>remove_alias\<close>, \<^verbatim>\<open>remove_cv\<close>,
  \<^verbatim>\<open>remove_declarated\<close>, and the test of the class of what it yields.\<close>

definition apply_sequence :: "type_t \<Rightarrow> error + py_obj" where
  "apply_sequence t = bnd (remove_cv (remove_alias t)) (\<lambda>t2. Inr (remove_declarated (PyType t2)))"

definition is_enum :: "store \<Rightarrow> type_t \<Rightarrow> error + bool" where
  "is_enum st t =
     bnd (apply_sequence t) (\<lambda>ob.
       Inr (case ob of
              PyDecl i \<Rightarrow> (case st i of Enumeration \<Rightarrow> True | _ \<Rightarrow> False)
            | _ \<Rightarrow> False))"



text \<open>Modelled from the spec: \<^verbatim>\<open>class_t.find_copy_constructor\<close>, which scans the direct
  constructors of the class for the first one that \<^verbatim>\<open>is_copy_constructor\<close> accepts
  (section 4.5).\<close>

definition find_copy_constructor :: "decl_id \<Rightarrow> class_t \<Rightarrow> constructor_t option" where
  "find_copy_constructor i c =
     List.find (\<lambda>k. is_copy_constructor (arguments k) i = Inr True) (constructors c)"

text \<open>\<^verbatim>\<open>has_copy_constructor\<close>, called on a declaration: \<^verbatim>\<open>class_traits.get_declaration\<close>
  leaves a declaration as it is, and the method exists on a class only.\<close>

definition has_copy_constructor :: "store \<Rightarrow> decl_id \<Rightarrow> error + bool" where
  "has_copy_constructor st i =
     (case st i of
        Class c \<Rightarrow>
          Inr (case find_copy_constructor i c of
                 Some k \<Rightarrow> ctor_access_type k = PUBLIC
               | None \<Rightarrow> False)
      | _ \<Rightarrow> Inl AttributeError)"

text \<open>\<^verbatim>\<open>is_base_and_derived(based, derived)\<close> for a single derived class.\<close>

definition is_base_and_derived :: "decl_id \<Rightarrow> class_t \<Rightarrow> bool" where
  "is_base_and_derived based derived =
     (\<exists>base_desc \<in> set (recursive_bases derived). related_class base_desc = based)"

section \<open>Convertibility\<close>

text \<open>Python's \<^verbatim>\<open>and\<close> and \<^verbatim>\<open>or\<close> on computations that may raise: the right operand is
  evaluated only when the left one does not decide.\<close>

definition andE :: "error + bool \<Rightarrow> error + bool \<Rightarrow> error + bool" where
  "andE a b = bnd a (\<lambda>x. if x then b else Inr False)"

definition orE :: "error + bool \<Rightarrow> error + bool \<Rightarrow> error + bool" where
  "orE a b = bnd a (\<lambda>x. if x then Inr True else b)"

text \<open>A function body that is a sequence of \<^verbatim>\<open>if c: return r\<close> statements: each step
  either returns (\<open>Some r\<close>) or falls through (\<open>None\<close>); falling off the end returns
  \<^verbatim>\<open>False\<close> or \<^verbatim>\<open>None\<close>, which every caller tests for truth only.\<close>

fun steps :: "(error + bool option) list \<Rightarrow> error + bool" where
  "steps [] = Inr False"
| "steps (Inl e # xs) = Inl e"
| "steps (Inr (Some r) # xs) = Inr r"
| "steps (Inr None # xs) = steps xs"

definition return_if :: "error + bool \<Rightarrow> bool \<Rightarrow> error + bool option" where
  "return_if c r = bnd c (\<lambda>b. Inr (if b then Some r else None))"

text \<open>\<^verbatim>\<open>__find_class_by_class_declaration\<close> and \<^verbatim>\<open>__normalize\<close>: the innermost node of
  the alias-resolved type, when it refers to a forward declaration, is made to refer to
  what the lookup of the definition returns.\<close>

fun set_base_declaration :: "type_t \<Rightarrow> decl_id option \<Rightarrow> type_t" where
  "set_base_declaration (Const b) d = Const (set_base_declaration b d)"
| "set_base_declaration (Volatile b) d = Volatile (set_base_declaration b d)"
| "set_base_declaration (Pointer b) d = Pointer (set_base_declaration b d)"
| "set_base_declaration (Reference b) d = Reference (set_base_declaration b d)"
| "set_base_declaration (Array b n) d = Array (set_base_declaration b d) n"
| "set_base_declaration (Alias m b) d = Alias m (set_base_declaration b d)"
| "set_base_declaration (DeclaredRef d') d = DeclaredRef d"
| "set_base_declaration t d = t"

definition normalize :: "store \<Rightarrow> type_t \<Rightarrow> type_t" where
  "normalize st t =
     (let t' = remove_alias t
      in case base_type t' of
           DeclaredRef (Some i) \<Rightarrow>
             (case st i of
                ClassDeclaration found \<Rightarrow> set_base_declaration t' found
              | _ \<Rightarrow> t')
         | _ \<Rightarrow> t')"

text \<open>\<^verbatim>\<open>__test_trivial\<close>. Its first test, \<^verbatim>\<open>not (source and target)\<close>, never holds for
  type expressions, which are true objects.\<close>

definition test_trivial :: "store \<Rightarrow> type_t \<Rightarrow> type_t \<Rightarrow> error + bool" where
  "test_trivial st source target = steps
     [return_if (Inr (is_same source target)) True,
      return_if (andE (Inr (is_const target))
                  (bnd (base target) (\<lambda>tb. Inr (is_same source tb)))) True,
      return_if (andE (Inr (is_reference target))
                  (bnd (base target) (\<lambda>tb. Inr (is_same source tb)))) True,
      return_if (andE (Inr (is_reference target))
                  (bnd (base target) (\<lambda>tb.
                   andE (Inr (is_const tb))
                     (bnd (base tb) (\<lambda>tbb. Inr (is_same source tbb)))))) True,
      (if is_same target (Pointer (Fundamental void_t))
       then bnd (orE (Inr (is_integral source)) (is_enum st source)) (\<lambda>b. Inr (Some (\<not> b)))
       else Inr None),
      return_if (andE (Inr (is_pointer source \<and> is_pointer target))
                  (bnd (base target) (\<lambda>tb.
                   andE (Inr (is_const tb))
                     (bnd (base source) (\<lambda>sb.
                      bnd (base tb) (\<lambda>tbb. Inr (is_same sb tbb))))))) True,
      return_if (andE (Inr (is_reference source \<and> is_reference target))
                  (bnd (base target) (\<lambda>tb.
                   andE (Inr (is_const tb))
                     (bnd (base source) (\<lambda>sb.
                      bnd (base tb) (\<lambda>tbb. Inr (is_same sb tbb))))))) True,
      return_if (andE (andE (Inr (\<not> is_const source)) (is_array source))
                  (andE (Inr (is_pointer target))
                     (bnd (base target) (\<lambda>tb. Inr (is_same (base_type source) tb))))) True,
      return_if (andE (is_array source)
                  (andE (Inr (is_pointer target))
                     (bnd (base target) (\<lambda>tb.
                      andE (Inr (is_const tb))
                        (bnd (base tb) (\<lambda>tbb. Inr (is_same (base_type source) tbb))))))) True]"

text \<open>The test for one of \<^verbatim>\<open>free_function_type_t\<close>, \<^verbatim>\<open>member_function_type_t\<close>,
  \<^verbatim>\<open>member_variable_type_t\<close>.\<close>

fun is_func_or_mv :: "type_t \<Rightarrow> bool" where
  "is_func_or_mv (FreeFunctionType s) = True"
| "is_func_or_mv (MemberFunctionType s) = True"
| "is_func_or_mv (MemberVariableType s) = True"
| "is_func_or_mv t = False"

definition test_pointer_to_func_or_mv__to__func_or_mv :: "type_t \<Rightarrow> type_t \<Rightarrow> error + bool" where
  "test_pointer_to_func_or_mv__to__func_or_mv source target = steps
     [return_if (andE (Inr (is_pointer source \<and> is_reference target))
                  (bnd (base target) (\<lambda>tb.
                   andE (Inr (is_func_or_mv tb))
                     (bnd (base source) (\<lambda>sb. Inr (is_same sb tb)))))) True,
      return_if (andE (Inr (is_pointer source \<and> is_func_or_mv target))
                  (bnd (base source) (\<lambda>sb. Inr (is_same sb target)))) True,
      return_if (andE (Inr (is_pointer target \<and> is_reference source))
                  (bnd (base source) (\<lambda>sb.
                   andE (Inr (is_func_or_mv sb))
                     (bnd (base target) (\<lambda>tb. Inr (is_same sb tb)))))) True,
      return_if (andE (Inr (is_pointer target \<and> is_func_or_mv source))
                  (bnd (base target) (\<lambda>tb. Inr (is_same tb source)))) True]"

text \<open>The closing statements shared by the four reference tests: a target that is a
  \<open>DeclaredRef\<close> must name a class (the assertion), and the test holds when that class
  has a public copy constructor.\<close>

definition declarated_with_copy_constructor :: "store \<Rightarrow> type_t \<Rightarrow> error + bool" where
  "declarated_with_copy_constructor st target =
     (case target of
        DeclaredRef d \<Rightarrow>
          (case d of
             None \<Rightarrow> Inl AssertionError
           | Some i \<Rightarrow>
               (case st i of
                  Class c \<Rightarrow> has_copy_constructor st i
                | _ \<Rightarrow> Inl AssertionError))
      | _ \<Rightarrow> Inr False)"

definition test_const_x_ref__to__x :: "store \<Rightarrow> type_t \<Rightarrow> type_t \<Rightarrow> error + bool" where
  "test_const_x_ref__to__x st source target =
     bnd (andE (Inr (is_reference source))
            (bnd (base source) (\<lambda>sb.
             andE (Inr (is_const sb))
               (bnd (base sb) (\<lambda>sbb. Inr (is_same sbb target)))))) (\<lambda>guard.
     if \<not> guard then Inr False
     else steps
       [return_if (Inr (is_fundamental target)) True,
        return_if (is_enum st target) True,
        return_if (declarated_with_copy_constructor st target) True])"

definition test_ref_x__to__x :: "store \<Rightarrow> type_t \<Rightarrow> type_t \<Rightarrow> error + bool" where
  "test_ref_x__to__x st source target =
     bnd (andE (Inr (is_reference source))
            (bnd (base source) (\<lambda>sb. Inr (is_same sb target)))) (\<lambda>guard.
     if \<not> guard then Inr False
     else steps
       [return_if (Inr (is_fundamental target)) True,
        return_if (is_enum st target) True,
        return_if (declarated_with_copy_constructor st target) True])"

definition test_fundamental__to__fundamental :: "type_t \<Rightarrow> type_t \<Rightarrow> error + bool" where
  "test_fundamental__to__fundamental source target =
     (if \<not> is_fundamental (base_type source) \<or> \<not> is_fundamental (base_type target)
      then Inr False
      else if is_void (base_type source) \<or> is_void (base_type target) then Inr False
      else steps
        [return_if (Inr (is_fundamental source \<and> is_fundamental target)) True,
         return_if (Inr (\<not> is_pointer source \<and> is_fundamental target)) True,
         return_if (andE (Inr (\<not> is_pointer source \<and> is_const target))
                     (bnd (base target) (\<lambda>tb. Inr (is_fundamental tb)))) True,
         return_if (andE (Inr (is_fundamental source \<and> is_reference target))
                     (bnd (base target) (\<lambda>tb.
                      andE (Inr (is_const tb))
                        (bnd (base tb) (\<lambda>tbb. Inr (is_fundamental tbb)))))) True])"

text \<open>\<^verbatim>\<open>_is_both_declarated\<close> and \<^verbatim>\<open>__test_derived_to_based\<close>. The loop over
  \<^verbatim>\<open>recursive_bases\<close> looks for an entry for the base that is not private
  (\<open>has_non_private_base\<close>).\<close>

fun is_declarated :: "type_t \<Rightarrow> bool" where
  "is_declarated (DeclaredRef d) = True"
| "is_declarated t = False"

definition is_both_declarated :: "type_t \<Rightarrow> type_t \<Rightarrow> bool" where
  "is_both_declarated x y = (is_declarated x \<and> is_declarated y)"

definition derived_to_based_shapes :: "type_t \<Rightarrow> type_t \<Rightarrow> error + bool" where
  "derived_to_based_shapes derived based = steps
     [return_if (Inr (is_both_declarated based derived)) True,
      return_if (andE (Inr (is_pointer derived \<and> is_pointer based))
                  (bnd (base based) (\<lambda>bb.
                   bnd (base derived) (\<lambda>db. Inr (is_both_declarated bb db))))) True,
      return_if (andE (Inr (is_pointer derived \<and> is_pointer based))
                  (bnd (base derived) (\<lambda>db.
                   andE (Inr (is_const db))
                     (bnd (base based) (\<lambda>bb.
                      andE (Inr (is_const bb))
                        (bnd (base bb) (\<lambda>bbb.
                         bnd (base db) (\<lambda>dbb. Inr (is_both_declarated bbb dbb))))))))) True,
      return_if (andE (Inr (is_pointer derived \<and> is_pointer based))
                  (bnd (base derived) (\<lambda>db.
                   andE (Inr (is_const db))
                     (bnd (base based) (\<lambda>bb.
                      bnd (base bb) (\<lambda>bbb. Inr (is_both_declarated bbb db))))))) True,
      return_if (andE (Inr (is_reference derived \<and> is_reference based))
                  (bnd (base based) (\<lambda>bb.
                   bnd (base derived) (\<lambda>db. Inr (is_both_declarated bb db))))) True,
      return_if (andE (Inr (is_reference derived \<and> is_reference based))
                  (bnd (base derived) (\<lambda>db.
                   andE (Inr (is_const db))
                     (bnd (base based) (\<lambda>bb.
                      andE (Inr (is_const bb))
                        (bnd (base bb) (\<lambda>bbb.
                         bnd (base db) (\<lambda>dbb. Inr (is_both_declarated bbb dbb))))))))) True,
      return_if (andE (Inr (is_reference derived \<and> is_reference based))
                  (bnd (base derived) (\<lambda>db.
                   andE (Inr (is_const db))
                     (bnd (base based) (\<lambda>bb.
                      bnd (base bb) (\<lambda>bbb. Inr (is_both_declarated bbb db))))))) True]"

definition has_non_private_base :: "class_t \<Rightarrow> decl_id \<Rightarrow> bool" where
  "has_non_private_base derived b =
     (\<exists>h \<in> set (recursive_bases derived). related_class h = b \<and> access_type h \<noteq> PRIVATE)"

definition test_derived_to_based :: "store \<Rightarrow> type_t \<Rightarrow> type_t \<Rightarrow> error + bool" where
  "test_derived_to_based st source target =
     (case base_type source of
        DeclaredRef (Some d) \<Rightarrow>
          (case st d of
             Class derived \<Rightarrow>
               (case base_type target of
                  DeclaredRef (Some b) \<Rightarrow>
                    (case st b of
                       Class based \<Rightarrow>
                         (if \<not> is_base_and_derived b derived then Inr False
                          else if \<not> has_non_private_base derived b then Inr False
                          else derived_to_based_shapes source target)
                     | _ \<Rightarrow> Inr False)
                | _ \<Rightarrow> Inr False)
           | _ \<Rightarrow> Inr False)
      | _ \<Rightarrow> Inr False)"

text \<open>The recursion of \<^verbatim>\<open>is_convertible\<close> has no bound in the source. The computations
  that take part in it return \<open>None\<close> when they do not return at all, \<open>Some (Inl e)\<close>
  when they raise, and \<open>Some (Inr v)\<close> when they return \<open>v\<close>.\<close>

type_synonym 'a comp = "(error + 'a) option"

definition cbnd :: "'a comp \<Rightarrow> ('a \<Rightarrow> 'b comp) \<Rightarrow> 'b comp" where
  "cbnd m f = (case m of None \<Rightarrow> None | Some (Inl e) \<Rightarrow> Some (Inl e) | Some (Inr x) \<Rightarrow> f x)"

definition candE :: "bool comp \<Rightarrow> bool comp \<Rightarrow> bool comp" where
  "candE a b = cbnd a (\<lambda>x. if x then b else Some (Inr False))"

fun csteps :: "(bool option) comp list \<Rightarrow> bool comp" where
  "csteps [] = Some (Inr False)"
| "csteps (None # xs) = None"
| "csteps (Some (Inl e) # xs) = Some (Inl e)"
| "csteps (Some (Inr (Some r)) # xs) = Some (Inr r)"
| "csteps (Some (Inr None) # xs) = csteps xs"

definition creturn_if :: "bool comp \<Rightarrow> bool \<Rightarrow> (bool option) comp" where
  "creturn_if c r = cbnd c (\<lambda>b. Some (Inr (if b then Some r else None)))"

text \<open>The two reference tests that call \<^verbatim>\<open>is_convertible\<close>; \<open>conv\<close> stands for that
  call.\<close>

definition test_const_ref_x__to__y ::
  "(type_t \<Rightarrow> type_t \<Rightarrow> bool comp) \<Rightarrow> store \<Rightarrow> type_t \<Rightarrow> type_t \<Rightarrow> bool comp" where
  "test_const_ref_x__to__y conv st source target =
     cbnd (Some (andE (Inr (is_reference source))
                   (bnd (base source) (\<lambda>sb. Inr (is_const sb))))) (\<lambda>guard.
     if \<not> guard then Some (Inr False)
     else cbnd (Some (bnd (base source) base)) (\<lambda>sbb. csteps
       [creturn_if (Some (Inr (is_fundamental sbb \<and> is_fundamental target))) True,
        creturn_if (candE (conv sbb (Fundamental int_t)) (Some (is_enum st target))) True,
        creturn_if (Some (declarated_with_copy_constructor st target)) True]))"

definition test_ref_x__to__y ::
  "(type_t \<Rightarrow> type_t \<Rightarrow> bool comp) \<Rightarrow> store \<Rightarrow> type_t \<Rightarrow> type_t \<Rightarrow> bool comp" where
  "test_ref_x__to__y conv st source target =
     (if \<not> is_reference source then Some (Inr False)
      else cbnd (Some (base source)) (\<lambda>sb. csteps
        [creturn_if (Some (Inr (is_fundamental sb \<and> is_fundamental target))) True,
         creturn_if (candE (conv sb (Fundamental int_t)) (Some (is_enum st target))) True,
         creturn_if (Some (declarated_with_copy_constructor st target)) True]))"

text \<open>The three user-defined rules of \<^verbatim>\<open>is_convertible\<close>, each a step of its body: an
  enumeration converts to a fundamental type other than void; a class converts through
  its casting operators; the target class converts from whatever one of its
  one-parameter constructors accepts.\<close>

definition enum_rule :: "store \<Rightarrow> type_t \<Rightarrow> type_t \<Rightarrow> (bool option) comp" where
  "enum_rule st source target =
     (case source of
        DeclaredRef (Some i) \<Rightarrow>
          (case st i of
             Enumeration \<Rightarrow>
               Some (Inr (if is_fundamental target \<and> \<not> is_void target then Some True else None))
           | _ \<Rightarrow> Some (Inr None))
      | _ \<Rightarrow> Some (Inr None))"

definition casting_operator_rule ::
  "(type_t \<Rightarrow> type_t \<Rightarrow> bool comp) \<Rightarrow> store \<Rightarrow> type_t \<Rightarrow> type_t \<Rightarrow> (bool option) comp" where
  "casting_operator_rule conv st source target =
     (case source of
        DeclaredRef (Some i) \<Rightarrow>
          (case st i of
             Class source_inst \<Rightarrow>
               cbnd (csteps (map (\<lambda>operator. creturn_if (conv (return_type operator) target) True)
                              (casting_operators source_inst)))
                    (\<lambda>b. Some (Inr (if b then Some True else None)))
           | _ \<Rightarrow> Some (Inr None))
      | _ \<Rightarrow> Some (Inr None))"

definition constructor_rule ::
  "(type_t \<Rightarrow> type_t \<Rightarrow> bool comp) \<Rightarrow> store \<Rightarrow> type_t \<Rightarrow> type_t \<Rightarrow> (bool option) comp" where
  "constructor_rule conv st source target =
     (case target of
        DeclaredRef (Some i) \<Rightarrow>
          (case st i of
             Class target_inst \<Rightarrow>
               cbnd (csteps (map (\<lambda>constructor.
                               if 1 \<noteq> length (arguments constructor) then Some (Inr None)
                               else creturn_if
                                      (conv source (decl_type (arguments constructor ! 0))) True)
                              (constructors target_inst)))
                    (\<lambda>b. Some (Inr (if b then Some True else None)))
           | _ \<Rightarrow> Some (Inr None))
      | _ \<Rightarrow> Some (Inr None))"

text \<open>The body of \<^verbatim>\<open>__is_convertible_t.is_convertible\<close> on the normalised operands.\<close>

definition is_convertible_body ::
  "(type_t \<Rightarrow> type_t \<Rightarrow> bool comp) \<Rightarrow> store \<Rightarrow> type_t \<Rightarrow> type_t \<Rightarrow> bool comp" where
  "is_convertible_body conv st source target = csteps
     [creturn_if (Some (test_trivial st source target)) True,
      creturn_if (Some (orE (is_array source) (is_array target))) False,
      creturn_if (Some (test_const_x_ref__to__x st source target)) True,
      creturn_if (test_const_ref_x__to__y conv st source target) True,
      creturn_if (Some (test_ref_x__to__x st source target)) True,
      creturn_if (test_ref_x__to__y conv st source target) True,
      creturn_if (Some (test_fundamental__to__fundamental source target)) True,
      creturn_if (Some (test_pointer_to_func_or_mv__to__func_or_mv source target)) True,
      creturn_if (Some (test_derived_to_based st source target)) True,
      enum_rule st source target,
      casting_operator_rule conv st source target,
      constructor_rule conv st source target]"

text \<open>\<^verbatim>\<open>is_convertible(source, target)\<close> with a bound on the depth of the calls: with
  depth \<open>0\<close> the call does not return.\<close>

primrec is_convertible :: "nat \<Rightarrow> store \<Rightarrow> type_t \<Rightarrow> type_t \<Rightarrow> bool comp" where
  "is_convertible 0 st source target = None"
| "is_convertible (Suc n) st source target =
     is_convertible_body (is_convertible n st) st (normalize st source) (normalize st target)"

section \<open>Resolving internal types\<close>
















section \<open>Notions used to state the properties\<close>



text \<open>The store with the flag \<^verbatim>\<open>is_artificial\<close> of every constructor set to \<open>a\<close>.\<close>

definition mark_artificial :: "bool \<Rightarrow> store \<Rightarrow> store" where
  "mark_artificial a st = (\<lambda>i.
     case st i of
       Class c \<Rightarrow> Class (c\<lparr>constructors := map (\<lambda>k. k\<lparr>is_artificial := a\<rparr>) (constructors c)\<rparr>)
     | d \<Rightarrow> d)"

section \<open>Example declarations\<close>


text \<open>A class whose only constructor is the copy constructor the compiler synthesised,
  and the same class with no constructor at all.\<close>

definition implicit_copy_constructor :: constructor_t where
  "implicit_copy_constructor =
     \<lparr>arguments = [argument_t (Reference (Const (DeclaredRef (Some 0))))],
      ctor_access_type = PUBLIC, is_artificial = True\<rparr>"

definition implicit_copy_store :: store where
  "implicit_copy_store = (\<lambda>i.
     if i = 0 then Class \<lparr>recursive_bases = [], constructors = [implicit_copy_constructor],
                          casting_operators = []\<rparr>
     else OtherDeclaration)"

definition no_constructor_store :: store where
  "no_constructor_store = (\<lambda>i.
     if i = 0 then Class \<lparr>recursive_bases = [], constructors = [], casting_operators = []\<rparr>
     else OtherDeclaration)"







section \<open>Properties\<close>

subsection \<open>Auxiliary facts\<close>

lemma bnd_simps [simp]: "bnd (Inl e) f = Inl e" "bnd (Inr x) f = f x"
  by (simp_all add: bnd_def)

lemma is_const_simps [simp]:
  "is_const (Const b) = True"
  "is_const (Volatile b) = is_const b"
  "is_const (Array b n) = is_const b"
  "is_const (Alias m (Const b)) = True"
  "is_const (Alias m (Volatile b)) = is_const b"
  "is_const (Alias m (Array b n)) = is_const b"
  "is_const (Fundamental k) = False"
  "is_const (Pointer b) = False"
  "is_const (Reference b) = False"
  "is_const (DeclaredRef d) = False"
  "is_const (FreeFunctionType s) = False"
  "is_const (MemberFunctionType s) = False"
  "is_const (MemberVariableType s) = False"
  by (simp_all add: is_const.simps)

lemma is_volatile_simps [simp]:
  "is_volatile (Volatile b) = True"
  "is_volatile (Const b) = is_volatile b"
  "is_volatile (Array b n) = is_volatile b"
  "is_volatile (Alias m (Volatile b)) = True"
  "is_volatile (Alias m (Const b)) = is_volatile b"
  "is_volatile (Alias m (Array b n)) = is_volatile b"
  "is_volatile (Fundamental k) = False"
  "is_volatile (Pointer b) = False"
  "is_volatile (Reference b) = False"
  "is_volatile (DeclaredRef d) = False"
  "is_volatile (FreeFunctionType s) = False"
  "is_volatile (MemberFunctionType s) = False"
  "is_volatile (MemberVariableType s) = False"
  by (simp_all add: is_volatile.simps)



lemma is_pointer_Pointer [simp]: "is_pointer (Pointer b)"
  by (simp add: is_pointer_def does_match_definition_def isinstance_def)

lemma is_reference_simps [simp]:
  "is_reference (Reference b)"
  "\<not> is_reference (Array b n)"
  "\<not> is_reference (Const b)"
  "\<not> is_reference (Volatile b)"
  "\<not> is_reference (Pointer b)"
  "\<not> is_reference (Fundamental k)"
  "\<not> is_reference (DeclaredRef d)"
  "\<not> is_reference (FreeFunctionType s)"
  "\<not> is_reference (MemberFunctionType s)"
  "\<not> is_reference (MemberVariableType s)"
  by (simp_all add: is_reference_def)






subsection \<open>Integral types\<close>

text \<open>C6. \<^verbatim>\<open>is_integral\<close> is meant to hold for every character, boolean and integer
  kind under any combination of qualifiers. The list built by \<^verbatim>\<open>create_cv_types\<close> has
  the nesting \<open>Volatile (Const k)\<close> only: \<^verbatim>\<open>const volatile int\<close> written as
  \<open>Const (Volatile int)\<close> is not recognised as integral, although \<^verbatim>\<open>is_fundamental\<close>
  accepts it.\<close>

theorem is_integral_misses_const_of_volatile:
  "\<not> is_integral (Const (Volatile (Fundamental int_t))) \<and>
   is_integral (Volatile (Const (Fundamental int_t))) \<and>
   is_fundamental (Const (Volatile (Fundamental int_t)))"
  by code_simp

subsection \<open>Stripping a layer twice\<close>




subsection \<open>Wrapping and unwrapping\<close>

text \<open>C8, as stated: \<^verbatim>\<open>remove_pointer(Pointer(T)) == T\<close> for every \<open>T\<close>. A pointer to a
  function type is returned as it is.\<close>

theorem remove_pointer_keeps_function_pointer:
  "remove_pointer (Pointer (FreeFunctionType ''void (int)''))
     \<noteq> Inr (FreeFunctionType ''void (int)'')"
  by (simp add: remove_pointer_def)

text \<open>C8, amended: \<^verbatim>\<open>is_const(Const(T))\<close> holds and \<^verbatim>\<open>remove_const(Const(T)) == T\<close>,
  \<^verbatim>\<open>remove_volatile(Volatile(T)) == T\<close> and \<^verbatim>\<open>remove_reference(Reference(T)) == T\<close> for
  every \<open>T\<close>; \<^verbatim>\<open>remove_pointer(Pointer(T)) == T\<close> for every \<open>T\<close> that is not a callable
  type; and for \<open>T\<close> neither const nor volatile, \<^verbatim>\<open>array_item_type\<close> and \<^verbatim>\<open>array_size\<close>
  give back \<open>T\<close> and \<open>n\<close> from \<open>Array T n\<close>.\<close>

theorem wrap_unwrap_round_trip:
  "is_const (Const t) \<and> remove_const (Const t) = Inr t \<and>
   remove_volatile (Volatile t) = Inr t \<and>
   (\<not> is_calldef_type t \<longrightarrow> remove_pointer (Pointer t) = Inr t) \<and>
   remove_reference (Reference t) = Inr t \<and>
   (\<not> is_const t \<and> \<not> is_volatile t \<longrightarrow>
      array_item_type (Array t n) = Inr t \<and> array_size (Array t n) = Inr n)"
proof -
  have 1: "remove_const (Const t) = Inr t" by (simp add: remove_const_def)
  have 2: "remove_volatile (Volatile t) = Inr t" by (simp add: remove_volatile_def)
  have 3: "\<not> is_calldef_type t \<Longrightarrow> remove_pointer (Pointer t) = Inr t"
    by (simp add: remove_pointer_def)
  have 4: "remove_reference (Reference t) = Inr t" by (simp add: remove_reference_def)
  have 5: "array_item_type (Array t n) = Inr t" if "\<not> is_const t" "\<not> is_volatile t"
    using that by (simp add: array_item_type_def is_array_def remove_reference_def remove_cv_def)
  have 6: "array_size (Array t n) = Inr n" if "\<not> is_const t" "\<not> is_volatile t"
    using that by (simp add: array_size_def is_array_def remove_reference_def remove_cv_def)
  from 1 2 3 4 5 6 show ?thesis by simp
qed

theorem wrap_unwrap_round_trip_witness:
  "\<not> is_calldef_type (Fundamental int_t) \<and> \<not> is_const (Fundamental int_t) \<and>
   \<not> is_volatile (Fundamental int_t) \<and>
   remove_pointer (Pointer (Fundamental int_t)) = Inr (Fundamental int_t) \<and>
   array_item_type (Array (Fundamental int_t) 3) = Inr (Fundamental int_t) \<and>
   array_size (Array (Fundamental int_t) 3) = Inr 3"
  using wrap_unwrap_round_trip [of "Fundamental int_t" 3] by simp

subsection \<open>Array size and item type\<close>




subsection \<open>Copy constructors\<close>

text \<open>C5. A constructor is a copy constructor exactly when it has one parameter, the
  parameter is a reference, and the referent, one alias layer resolved, is \<open>Const\<close> of a
  \<open>DeclaredRef\<close> naming the class the constructor belongs to. The test never raises, and
  a parameter whose type is an alias at the outermost level is not a match.\<close>

theorem is_copy_constructor_iff:
  "is_copy_constructor args parent =
     Inr (\<exists>r. args = [argument_t (Reference r)] \<and>
              remove_alias r = Const (DeclaredRef (Some parent))) \<and>
   is_copy_constructor [argument_t (Alias m b)] parent = Inr False"
proof
  show "is_copy_constructor [argument_t (Alias m b)] parent = Inr False"
    by (simp add: is_copy_constructor_def)
  show "is_copy_constructor args parent =
     Inr (\<exists>r. args = [argument_t (Reference r)] \<and>
              remove_alias r = Const (DeclaredRef (Some parent)))"
  proof (cases args)
    case Nil
    then show ?thesis by (simp add: is_copy_constructor_def)
  next
    case (Cons a as)
    obtain ty where a: "a = argument_t ty" by (cases a)
    show ?thesis
    proof (cases as)
      case (Cons a' as')
      with \<open>args = a # as\<close> show ?thesis by (simp add: is_copy_constructor_def)
    next
      case Nil
      show ?thesis
      proof (cases ty)
        case (Reference r)
        show ?thesis
        proof (cases "is_const r")
          case False
          then have "remove_alias r \<noteq> Const (DeclaredRef (Some parent))"
            by (auto simp: is_const.simps [of r])
          with False Reference Nil a \<open>args = a # as\<close> show ?thesis
            by (simp add: is_copy_constructor_def)
        next
          case True
          then obtain ub where ub: "base (remove_alias r) = Inr ub"
            by (cases "remove_alias r") (auto simp: is_const.simps [of r])
          have "(case ub of DeclaredRef d \<Rightarrow> Inr (d = Some parent) | _ \<Rightarrow> Inr False)
             = (Inr (remove_alias r = Const (DeclaredRef (Some parent))) :: error + bool)"
            using True ub
            by (cases "remove_alias r"; cases ub) (auto simp: is_const.simps [of r])
          with True Reference Nil a ub \<open>args = a # as\<close> show ?thesis
            by (simp add: is_copy_constructor_def)
        qed
      qed (use Nil a \<open>args = a # as\<close> in \<open>simp_all add: is_copy_constructor_def\<close>)
    qed
  qed
qed

subsection \<open>Facts about the convertibility engine\<close>









lemma size_set_base_declaration [simp]: "size (set_base_declaration t d) = size t"
  by (induction t d rule: set_base_declaration.induct) auto









lemma constructor_rule_not_declarated:
  "\<not> is_declarated t \<Longrightarrow> constructor_rule conv st s t = Some (Inr None)"
  by (cases t) (simp_all add: constructor_rule_def)













subsection \<open>Termination of the convertibility test\<close>







subsection \<open>Arrays\<close>



subsection \<open>Derived to base\<close>












subsection \<open>Conversion through a constructor\<close>

lemma find_map_artificial:
  "List.find P (map (\<lambda>k. k\<lparr>is_artificial := a\<rparr>) xs)
     = map_option (\<lambda>k. k\<lparr>is_artificial := a\<rparr>)
         (List.find (\<lambda>k. P (k\<lparr>is_artificial := a\<rparr>)) xs)"
  by (induction xs) auto

lemma normalize_mark [simp]: "normalize (mark_artificial a st) t = normalize st t"
  by (auto simp: normalize_def mark_artificial_def Let_def
      split: type_t.splits option.splits declaration_t.splits)

lemma is_enum_mark [simp]: "is_enum (mark_artificial a st) t = is_enum st t"
proof -
  have "(case mark_artificial a st i of Enumeration \<Rightarrow> True | _ \<Rightarrow> False)
      = (case st i of Enumeration \<Rightarrow> True | _ \<Rightarrow> False)" for i
    by (simp add: mark_artificial_def split: declaration_t.splits)
  then show ?thesis by (simp add: is_enum_def cong: py_obj.case_cong)
qed

lemma has_copy_constructor_mark [simp]:
  "has_copy_constructor (mark_artificial a st) i = has_copy_constructor st i"
  by (auto simp: has_copy_constructor_def mark_artificial_def find_copy_constructor_def
      find_map_artificial split: declaration_t.splits option.splits)

lemma declarated_with_copy_constructor_mark [simp]:
  "declarated_with_copy_constructor (mark_artificial a st) t
     = declarated_with_copy_constructor st t"
proof (cases t)
  case (DeclaredRef d)
  show ?thesis
  proof (cases d)
    case (Some i)
    have "has_copy_constructor (mark_artificial a st) i = has_copy_constructor st i" by simp
    then show ?thesis
      unfolding declarated_with_copy_constructor_def DeclaredRef Some
      by (auto simp: mark_artificial_def split: declaration_t.splits)
  qed (simp add: DeclaredRef declarated_with_copy_constructor_def)
qed (simp_all add: declarated_with_copy_constructor_def)

lemma test_trivial_mark [simp]: "test_trivial (mark_artificial a st) s t = test_trivial st s t"
  by (simp add: test_trivial_def cong: if_cong)

lemma test_const_x_ref_mark [simp]:
  "test_const_x_ref__to__x (mark_artificial a st) s t = test_const_x_ref__to__x st s t"
  by (simp add: test_const_x_ref__to__x_def cong: if_cong)

lemma test_ref_x_mark [simp]:
  "test_ref_x__to__x (mark_artificial a st) s t = test_ref_x__to__x st s t"
  by (simp add: test_ref_x__to__x_def cong: if_cong)

lemma test_const_ref_y_mark [simp]:
  "test_const_ref_x__to__y conv (mark_artificial a st) s t = test_const_ref_x__to__y conv st s t"
  by (simp add: test_const_ref_x__to__y_def cong: if_cong)

lemma test_ref_y_mark [simp]:
  "test_ref_x__to__y conv (mark_artificial a st) s t = test_ref_x__to__y conv st s t"
  by (simp add: test_ref_x__to__y_def cong: if_cong)

lemma test_derived_mark [simp]:
  "test_derived_to_based (mark_artificial a st) s t = test_derived_to_based st s t"
  by (auto simp: test_derived_to_based_def mark_artificial_def is_base_and_derived_def
      has_non_private_base_def split: type_t.splits option.splits declaration_t.splits)

lemma enum_rule_mark [simp]: "enum_rule (mark_artificial a st) s t = enum_rule st s t"
  by (auto simp: enum_rule_def mark_artificial_def
      split: type_t.splits option.splits declaration_t.splits)

lemma casting_rule_mark [simp]:
  "casting_operator_rule conv (mark_artificial a st) s t = casting_operator_rule conv st s t"
  by (auto simp: casting_operator_rule_def mark_artificial_def
      split: type_t.splits option.splits declaration_t.splits)

lemma constructor_rule_mark [simp]:
  "constructor_rule conv (mark_artificial a st) s t = constructor_rule conv st s t"
  by (auto simp: constructor_rule_def mark_artificial_def comp_def
      split: type_t.splits option.splits declaration_t.splits cong: if_cong)

lemma body_mark:
  "is_convertible_body conv (mark_artificial a st) s t = is_convertible_body conv st s t"
  by (simp add: is_convertible_body_def)

lemma is_convertible_mark:
  "is_convertible n (mark_artificial a st) s t = is_convertible n st s t"
proof (induction n arbitrary: s t)
  case 0
  show ?case by simp
next
  case (Suc n)
  then have "is_convertible n (mark_artificial a st) = is_convertible n st" by (intro ext)
  then show ?case by (simp add: body_mark)
qed

lemma csteps_map_any:
  assumes "\<forall>x \<in> set xs. \<exists>b. f x = Some (Inr b)"
  shows "csteps (map (\<lambda>x. cbnd (f x) (\<lambda>b. Some (Inr (if b then Some True else None)))) xs)
         = Some (Inr (\<exists>x \<in> set xs. f x = Some (Inr True)))"
  using assms
proof (induction xs)
  case Nil
  show ?case by simp
next
  case (Cons x xs)
  then obtain b where b: "f x = Some (Inr b)" by auto
  with Cons show ?case by (cases b) (auto simp: cbnd_def)
qed

lemma constructor_rule_fires:
  assumes "st i = Class c"
    and "\<forall>k \<in> set (constructors c). length (arguments k) = 1 \<longrightarrow>
           (\<exists>b. conv source (decl_type (arguments k ! 0)) = Some (Inr b))"
  shows "constructor_rule conv st source (DeclaredRef (Some i)) =
           Some (Inr (if (\<exists>k \<in> set (constructors c). length (arguments k) = 1 \<and>
                           conv source (decl_type (arguments k ! 0)) = Some (Inr True))
                      then Some True else None))"
proof -
  let ?f = "\<lambda>k. if 1 \<noteq> length (arguments k) then Some (Inr False)
                 else conv source (decl_type (arguments k ! 0))"
  have eq: "(\<lambda>constructor.
                 if 1 \<noteq> length (arguments constructor) then Some (Inr None)
                 else creturn_if (conv source (decl_type (arguments constructor ! 0))) True)
          = (\<lambda>k. cbnd (?f k) (\<lambda>b. Some (Inr (if b then Some True else None))))"
    by (auto simp: creturn_if_def cbnd_def)
  have "\<forall>k \<in> set (constructors c). \<exists>b. ?f k = Some (Inr b)"
    using assms(2) by auto
  from csteps_map_any [of "constructors c" ?f, OF this]
  show ?thesis
    using assms(1) unfolding constructor_rule_def eq
    by (auto simp: cbnd_def)
qed

text \<open>C4, as stated: the constructor rule fires through constructors that are not
  artificial only. A class whose only constructor is the synthesised copy constructor
  is convertible from its const-qualified self through that constructor; without the
  constructor it is not.\<close>

theorem artificial_constructor_converts:
  "is_artificial implicit_copy_constructor \<and>
   is_convertible 2 implicit_copy_store (Const (DeclaredRef (Some 0))) (DeclaredRef (Some 0))
     = Some (Inr True) \<and>
   is_convertible 2 no_constructor_store (Const (DeclaredRef (Some 0))) (DeclaredRef (Some 0))
     = Some (Inr False)"
  by code_simp

text \<open>C4, amended: the constructor rule looks at the constructors declared on the target
  class that have exactly one parameter, artificial or not. When each call of
  \<^verbatim>\<open>is_convertible\<close> on the parameter type of such a constructor returns a value, the
  rule returns \<^verbatim>\<open>True\<close> iff one of these calls does, and falls through otherwise; it
  falls through on a target that is not a \<open>DeclaredRef\<close>; and the outcome of
  \<^verbatim>\<open>is_convertible\<close> does not depend on the flag \<^verbatim>\<open>is_artificial\<close> of any constructor.\<close>

theorem constructor_rule_single_argument:
  "(st i = Class c \<and>
    (\<forall>k \<in> set (constructors c). length (arguments k) = 1 \<longrightarrow>
        (\<exists>b. conv source (decl_type (arguments k ! 0)) = Some (Inr b))) \<longrightarrow>
      constructor_rule conv st source (DeclaredRef (Some i)) =
        Some (Inr (if (\<exists>k \<in> set (constructors c). length (arguments k) = 1 \<and>
                        conv source (decl_type (arguments k ! 0)) = Some (Inr True))
                   then Some True else None))) \<and>
   (\<not> is_declarated target \<longrightarrow> constructor_rule conv st source target = Some (Inr None)) \<and>
   is_convertible n (mark_artificial a st) source target = is_convertible n st source target"
  using constructor_rule_fires [of st i c conv source]
    constructor_rule_not_declarated [of target conv st source]
    is_convertible_mark [of n a st source target]
  by blast

theorem constructor_rule_single_argument_witness:
  "constructor_rule (is_convertible 1 implicit_copy_store) implicit_copy_store
      (Const (DeclaredRef (Some 0))) (DeclaredRef (Some 0)) = Some (Inr (Some True)) \<and>
   constructor_rule (is_convertible 1 implicit_copy_store) implicit_copy_store
      (Const (DeclaredRef (Some 0))) (Fundamental int_t) = Some (Inr None) \<and>
   is_convertible 2 (mark_artificial False implicit_copy_store)
      (Const (DeclaredRef (Some 0))) (DeclaredRef (Some 0)) = Some (Inr True)"
proof -
  let ?c = "\<lparr>recursive_bases = [], constructors = [implicit_copy_constructor],
             casting_operators = []\<rparr>"
  let ?conv = "is_convertible 1 implicit_copy_store"
  let ?s = "Const (DeclaredRef (Some 0))"
  have st: "implicit_copy_store 0 = Class ?c" by (simp add: implicit_copy_store_def)
  have call: "?conv ?s (Reference (Const (DeclaredRef (Some 0)))) = Some (Inr True)"
    by code_simp
  have two: "is_convertible 2 implicit_copy_store ?s (DeclaredRef (Some 0)) = Some (Inr True)"
    by code_simp
  have nd: "\<not> is_declarated (Fundamental int_t)" by simp
  have all: "\<forall>k \<in> set (constructors ?c). length (arguments k) = 1 \<longrightarrow>
        (\<exists>b. ?conv ?s (decl_type (arguments k ! 0)) = Some (Inr b))"
    using call by (auto simp add: implicit_copy_constructor_def simp del: is_convertible.simps)
  have one: "\<exists>k \<in> set (constructors ?c). length (arguments k) = 1 \<and>
        ?conv ?s (decl_type (arguments k ! 0)) = Some (Inr True)"
    using call by (simp add: implicit_copy_constructor_def del: is_convertible.simps)
  note t1 = constructor_rule_single_argument [where st = implicit_copy_store and i = 0
      and c = ?c and source = ?s and conv = ?conv
      and target = "Fundamental int_t" and n = 2 and a = False]
  note t2 = constructor_rule_single_argument [where st = implicit_copy_store and i = 0
      and c = ?c and source = ?s and conv = ?conv
      and target = "DeclaredRef (Some 0)" and n = 2 and a = False]
  from t1 st all have "constructor_rule ?conv implicit_copy_store ?s (DeclaredRef (Some 0)) =
        Some (Inr (if (\<exists>k \<in> set (constructors ?c). length (arguments k) = 1 \<and>
                        ?conv ?s (decl_type (arguments k ! 0)) = Some (Inr True))
                   then Some True else None))"
    by blast
  with one have w1: "constructor_rule ?conv implicit_copy_store ?s (DeclaredRef (Some 0))
      = Some (Inr (Some True))"
    by (simp del: is_convertible.simps)
  from t1 nd have w2: "constructor_rule ?conv implicit_copy_store ?s (Fundamental int_t)
      = Some (Inr None)"
    by blast
  from t2 two have w3: "is_convertible 2 (mark_artificial False implicit_copy_store) ?s
      (DeclaredRef (Some 0)) = Some (Inr True)"
    by simp
  from w1 w2 w3 show ?thesis by blast
qed

subsection \<open>Resolving an internal type\<close>




end
